theory Spec2Isabelle
  imports Main "HOL-Library.Char_ord"
begin

section \<open>JavaScript values\<close>

text \<open>
  The values that flow through the two source files: page data, the skip marker and the
  validated configuration. An object is the list of its own enumerable properties in
  enumeration order. The number type is a parameter: no property below looks inside a number.
\<close>

datatype 'n jsval =
    JUndefined
  | JNull
  | JBool bool
  | JNum 'n
  | JStr string
  | JFun
  | JArr "'n jsval list"
  | JObj "(string \<times> 'n jsval) list"

section \<open>The skip middleware (src/middleware/page/skip.js)\<close>

subsection \<open>Request, session and effects\<close>

text \<open>
  What the query-string parser can put under \<open>req.query.skipto\<close> when the parameter is
  present: a string, an array (the parameter repeated) or a nested object. An absent
  parameter (\<open>undefined\<close>) is \<open>None\<close> in the request record.
\<close>

datatype qval =
    QStr string
  | QArr "qval list"
  | QObj "(string \<times> qval) list"

record origin =
  originId :: "string option"

record ('d, 'v) session =
  sess_journeyData :: "'d option"
  sess_journeyValidationErrors :: "'v option"

record ('c, 'd, 'v) request =
  query_skipto :: "qval option"
  journeyOrigin :: "origin option"
  journeyWaypointId :: string
  journeyData :: 'c
  session :: "('d, 'v) session"

text \<open>
  \<open>req.journeyData\<close> is an instance of the JourneyContext class, whose file is not among
  the sources. The middleware only calls four of its methods, so the class is a parameter of
  the model: a record of the four methods over an arbitrary instance state \<open>'c\<close>.
\<close>

record ('c, 'n, 'd, 'v) JourneyContext_class =
  clearValidationErrorsForPage :: "string \<Rightarrow> 'c \<Rightarrow> 'c"
  setDataForPage :: "string \<Rightarrow> 'n jsval \<Rightarrow> 'c \<Rightarrow> 'c"
  getData :: "'c \<Rightarrow> 'd"
  getValidationErrors :: "'c \<Rightarrow> 'v"

text \<open>
  \<open>res.status(n).send(body)\<close> and \<open>res.status(n).redirect(path)\<close>, the path as the
  middleware hands it over.
\<close>

datatype response =
    Send nat string
  | Redirect nat string

datatype store_error = StoreError string

text \<open>
  Everything the middleware does to the outside, in the order it does it: log lines (format
  string and arguments), the call of \<open>next\<close>, the call of \<open>req.session.save\<close> and the
  response.
\<close>

datatype event =
    LogInfo string "string option list"
  | LogError store_error
  | NextCalled
  | SessionSave
  | Respond response

subsection \<open>The waypoint pattern\<close>

definition ascii_lower :: "char \<Rightarrow> bool" where
  "ascii_lower c \<longleftrightarrow> CHR ''a'' \<le> c \<and> c \<le> CHR ''z''"

definition ascii_upper :: "char \<Rightarrow> bool" where
  "ascii_upper c \<longleftrightarrow> CHR ''A'' \<le> c \<and> c \<le> CHR ''Z''"

definition ascii_digit :: "char \<Rightarrow> bool" where
  "ascii_digit c \<longleftrightarrow> CHR ''0'' \<le> c \<and> c \<le> CHR ''9''"

text \<open>
  The character class of the source's regular expression, which carries the flag \<open>i\<close>:
  a letter of either case, a digit or the hyphen. Only ASCII letters match: without the
  flag \<open>u\<close> no character outside ASCII is folded onto an ASCII letter. A character of the
  model is a byte; every code unit beyond it fails the class as the bytes above 127 do.
\<close>

definition skipto_class :: "char \<Rightarrow> bool" where
  "skipto_class c \<longleftrightarrow> ascii_lower c \<or> ascii_upper c \<or> ascii_digit c \<or> c = CHR ''-''"

text \<open>
  \<open>skipto.match(...)\<close> of line 27: the whole string, one to two hundred characters of the
  class.
\<close>

definition skipto_match :: "string \<Rightarrow> bool" where
  "skipto_match s \<longleftrightarrow> 1 \<le> length s \<and> length s \<le> 200 \<and> list_all skipto_class s"

text \<open>
  The pattern as the specification words it, without the flag: lower-case letters, digits and
  the hyphen only. Used to compare with \<open>skipto_match\<close>.
\<close>

definition spec_id_class :: "char \<Rightarrow> bool" where
  "spec_id_class c \<longleftrightarrow> ascii_lower c \<or> ascii_digit c \<or> c = CHR ''-''"

definition spec_id_pattern :: "string \<Rightarrow> bool" where
  "spec_id_pattern s \<longleftrightarrow> 1 \<le> length s \<and> length s \<le> 200 \<and> list_all spec_id_class s"

subsection \<open>The redirect target\<close>

text \<open>
  The global replacement of line 49: scanning from the left, each maximal run of slashes is
  replaced by one slash.
\<close>

function collapse_slashes :: "string \<Rightarrow> string" where
  "collapse_slashes [] = []"
| "collapse_slashes (c # cs) =
     (if c = CHR ''/'' then CHR ''/'' # collapse_slashes (dropWhile (\<lambda>d. d = CHR ''/'') cs)
      else c # collapse_slashes cs)"
  by pat_completeness auto
termination
  by (relation "measure length") (auto simp: length_dropWhile_le le_imp_less_Suc)

text \<open>No two neighbouring characters are both slashes.\<close>

fun no_double_slash :: "string \<Rightarrow> bool" where
  "no_double_slash (c # d # cs) = (\<not> (c = CHR ''/'' \<and> d = CHR ''/'') \<and> no_double_slash (d # cs))"
| "no_double_slash _ = True"

text \<open>
  The same text with every slash that directly follows a slash deleted, by one pass over
  neighbouring characters: what collapsing each run to one slash means.
\<close>

fun drop_repeated_slashes :: "string \<Rightarrow> string" where
  "drop_repeated_slashes (c # d # cs) =
     (if c = CHR ''/'' \<and> d = CHR ''/'' then drop_repeated_slashes (d # cs)
      else c # drop_repeated_slashes (d # cs))"
| "drop_repeated_slashes cs = cs"

text \<open>\<open>x || ''\<close> on an origin id that is a string or \<open>undefined\<close>.\<close>

definition or_empty :: "string option \<Rightarrow> string" where
  "or_empty x = (case x of None \<Rightarrow> [] | Some s \<Rightarrow> s)"

definition redirect_target :: "string \<Rightarrow> origin \<Rightarrow> string \<Rightarrow> string" where
  "redirect_target mountUrl jo skipto =
     collapse_slashes (mountUrl @ ''/'' @ or_empty (originId jo) @ ''/'' @ skipto)"

subsection \<open>The middleware\<close>

text \<open>The object literal of lines 36 to 38.\<close>

definition skip_marker :: "'n jsval" where
  "skip_marker = JObj [(''__skipped__'', JBool True)]"

text \<open>
  Lines 35 to 38: the two calls on \<open>req.journeyData\<close>, errors cleared first, then the
  marker written.
\<close>

definition mark_skipped :: "('c, 'n, 'd, 'v) JourneyContext_class \<Rightarrow> string \<Rightarrow> 'c \<Rightarrow> 'c" where
  "mark_skipped jc w jd =
     setDataForPage jc w skip_marker (clearValidationErrorsForPage jc w jd)"

text \<open>Lines 41 and 42: the two assignments to \<open>req.session\<close>.\<close>

definition persist_to_session ::
  "('c, 'n, 'd, 'v) JourneyContext_class \<Rightarrow> 'c \<Rightarrow> ('d, 'v) session \<Rightarrow> ('d, 'v) session" where
  "persist_to_session jc jd sess =
     sess\<lparr>sess_journeyData := Some (getData jc jd),
          sess_journeyValidationErrors := Some (getValidationErrors jc jd)\<rparr>"

text \<open>
  \<open>module.exports = mountUrl => (req, res, next) => ...\<close>. The parameters \<open>jc\<close> (the
  JourneyContext methods) and \<open>save\<close> (what the session store answers to
  \<open>req.session.save\<close>: no error, or the error handed to the callback) stand for the
  collaborators. The store is taken to call the callback once; the callback then runs to
  its end. The result is the request after the call and the effects in order.
\<close>

definition skip ::
  "('c, 'n, 'd, 'v) JourneyContext_class \<Rightarrow> (('d, 'v) session \<Rightarrow> store_error option) \<Rightarrow>
   string \<Rightarrow> ('c, 'd, 'v) request \<Rightarrow> ('c, 'd, 'v) request \<times> event list" where
  "skip jc save mountUrl req =
     (let jo = (case journeyOrigin req of None \<Rightarrow> \<lparr>originId = Some []\<rparr> | Some o' \<Rightarrow> o');
          invalid = (req, [Respond (Send 400 ''Invalid waypoint'')])
      in case query_skipto req of
           None \<Rightarrow> (req, [NextCalled])
         | Some (QArr _) \<Rightarrow> invalid
         | Some (QObj _) \<Rightarrow> invalid
         | Some (QStr skipto) \<Rightarrow>
             if \<not> skipto_match skipto then invalid
             else
               let jd = mark_skipped jc (journeyWaypointId req) (journeyData req);
                   sess = persist_to_session jc jd (session req)
               in (req\<lparr>journeyData := jd, session := sess\<rparr>,
                   [LogInfo ''Marking waypoint %s as skipped'' [Some (journeyWaypointId req)],
                    SessionSave]
                   @ (case save sess of None \<Rightarrow> [] | Some err \<Rightarrow> [LogError err])
                   @ [Respond (Redirect 302 (redirect_target mountUrl jo skipto))]))"

text \<open>
  The test of line 27 as a predicate on a present parameter: a string that matches.
\<close>

fun accepted_skipto :: "qval \<Rightarrow> bool" where
  "accepted_skipto (QStr s) = skipto_match s"
| "accepted_skipto _ = False"

text \<open>The origin id that goes into the redirect path: empty when no origin is set.\<close>

definition current_origin_id :: "('c, 'd, 'v) request \<Rightarrow> string" where
  "current_origin_id req =
     (case journeyOrigin req of None \<Rightarrow> [] | Some jo \<Rightarrow> or_empty (originId jo))"

text \<open>Classifying effects, to state which ones a run has.\<close>

fun is_log :: "event \<Rightarrow> bool" where
  "is_log (LogInfo _ _) = True"
| "is_log (LogError _) = True"
| "is_log _ = False"

fun is_response :: "event \<Rightarrow> bool" where
  "is_response (Respond _) = True"
| "is_response _ = False"

fun is_save :: "event \<Rightarrow> bool" where
  "is_save SessionSave = True"
| "is_save _ = False"

text \<open>The path of line 49 before the slashes are collapsed.\<close>

definition joined_path :: "string \<Rightarrow> ('c, 'd, 'v) request \<Rightarrow> string \<Rightarrow> string" where
  "joined_path mountUrl req skipto = mountUrl @ ''/'' @ current_origin_id req @ ''/'' @ skipto"

text \<open>The session as it stands when \<open>req.session.save\<close> is called on an accepted request.\<close>

definition session_to_save ::
  "('c, 'n, 'd, 'v) JourneyContext_class \<Rightarrow> ('c, 'd, 'v) request \<Rightarrow> ('d, 'v) session" where
  "session_to_save jc req =
     persist_to_session jc (mark_skipped jc (journeyWaypointId req) (journeyData req)) (session req)"

text \<open>The request passes both tests of lines 23 to 30.\<close>

definition skip_accepts :: "('c, 'd, 'v) request \<Rightarrow> bool" where
  "skip_accepts req = (case query_skipto req of None \<Rightarrow> False | Some q \<Rightarrow> accepted_skipto q)"

subsection \<open>The journey context of the specification\<close>

text \<open>
  Modelled from the spec: the JourneyContext class (lib/JourneyContext.js is not among the
  sources). Section 3 gives its state: a mapping from waypoint id to the payload submitted
  for that waypoint, and a mapping from waypoint id to an ordered list of errors.
\<close>

record ('n, 'e) JourneyContext =
  data :: "string \<rightharpoonup> 'n jsval"
  validation :: "string \<rightharpoonup> 'e list"

text \<open>Property assignment on an object: replace the value in place, or append the key.\<close>

fun assign :: "string \<Rightarrow> 'a \<Rightarrow> (string \<times> 'a) list \<Rightarrow> (string \<times> 'a) list" where
  "assign k v [] = [(k, v)]"
| "assign k v ((k', v') # kvs) = (if k = k' then (k, v) # kvs else (k', v') # assign k v kvs)"

fun carries_skip_marker :: "'n jsval \<Rightarrow> bool" where
  "carries_skip_marker (JObj kvs) = (map_of kvs ''__skipped__'' = Some (JBool True))"
| "carries_skip_marker _ = False"

fun merge_top :: "'n jsval \<Rightarrow> 'n jsval \<Rightarrow> 'n jsval" where
  "merge_top (JObj old) (JObj new) = JObj (fold (\<lambda>(k, v). assign k v) new old)"
| "merge_top _ new = new"

text \<open>
  Modelled from the spec: section 4.2, \<open>setDataForWaypoint(id, payload)\<close>, total replace,
  not merge, when the payload carries the skip marker; merge at top level otherwise.
\<close>

definition setDataForWaypoint ::
  "string \<Rightarrow> 'n jsval \<Rightarrow> ('n, 'e) JourneyContext \<Rightarrow> ('n, 'e) JourneyContext" where
  "setDataForWaypoint w payload jc =
     jc\<lparr>data := (data jc)(w \<mapsto>
       (if carries_skip_marker payload then payload
        else (case data jc w of None \<Rightarrow> payload | Some old \<Rightarrow> merge_top old payload)))\<rparr>"

text \<open>
  Modelled from the spec: section 4.2, \<open>getDataForWaypoint(id)\<close>, the payload or empty.
\<close>

definition getDataForWaypoint :: "string \<Rightarrow> ('n, 'e) JourneyContext \<Rightarrow> 'n jsval" where
  "getDataForWaypoint w jc = (case data jc w of None \<Rightarrow> JObj [] | Some p \<Rightarrow> p)"

text \<open>
  Modelled from the spec: section 4.2, \<open>clearValidationErrors(id)\<close>; the waypoint's entry
  is removed from the mapping.
\<close>

definition clearValidationErrors ::
  "string \<Rightarrow> ('n, 'e) JourneyContext \<Rightarrow> ('n, 'e) JourneyContext" where
  "clearValidationErrors w jc = jc\<lparr>validation := (validation jc)(w := None)\<rparr>"

text \<open>The errors a context holds for a waypoint: those of its entry, none without one.\<close>

definition errorsForWaypoint :: "string \<Rightarrow> ('n, 'e) JourneyContext \<Rightarrow> 'e list" where
  "errorsForWaypoint w jc = (case validation jc w of None \<Rightarrow> [] | Some es \<Rightarrow> es)"

text \<open>
  Modelled from the spec: section 4.2, \<open>isSkipped(id)\<close>, true iff the stored payload equals
  the skip marker exactly.
\<close>

definition isSkipped :: "string \<Rightarrow> ('n, 'e) JourneyContext \<Rightarrow> bool" where
  "isSkipped w jc \<longleftrightarrow> data jc w = Some skip_marker"

text \<open>
  Modelled from the spec: the four methods skip.js calls, bound to the operations of
  section 4.2; \<open>getData\<close> and \<open>getValidationErrors\<close> hand out the two mappings.
\<close>

definition spec_JourneyContext ::
  "(('n, 'e) JourneyContext, 'n, string \<rightharpoonup> 'n jsval, string \<rightharpoonup> 'e list) JourneyContext_class" where
  "spec_JourneyContext =
     \<lparr>clearValidationErrorsForPage = clearValidationErrors,
      setDataForPage = setDataForWaypoint,
      getData = data,
      getValidationErrors = validation\<rparr>"

subsection \<open>A request to run the middleware on\<close>

text \<open>
  The scenario of section 8 of the specification: the user is on \<open>step-two\<close> of the origin
  \<open>main\<close>, with data and an error stored for that waypoint and a fresh session. The query
  parameter is left open.
\<close>

definition example_request ::
  "qval option \<Rightarrow>
   ((nat, string) JourneyContext, string \<rightharpoonup> nat jsval, string \<rightharpoonup> string list) request" where
  "example_request q =
     \<lparr>query_skipto = q,
      journeyOrigin = Some \<lparr>originId = Some ''main''\<rparr>,
      journeyWaypointId = ''step-two'',
      journeyData =
        \<lparr>data = [''step-two'' \<mapsto> JObj [(''name'', JStr ''x'')]],
         validation = [''step-two'' \<mapsto> [''name is required'']]\<rparr>,
      session = \<lparr>sess_journeyData = None, sess_journeyValidationErrors = None\<rparr>\<rparr>"

section \<open>Config ingestion (src/casa.js, ingestConfig)\<close>

subsection \<open>The replacer of line 42\<close>

text \<open>\<open>Array.prototype.indexOf\<close>: the first index holding the element, or minus one.\<close>

fun indexOf_from :: "int \<Rightarrow> 'a list \<Rightarrow> 'a \<Rightarrow> int" where
  "indexOf_from i [] x = -1"
| "indexOf_from i (y # ys) x = (if y = x then i else indexOf_from (i + 1) ys x)"

definition indexOf :: "'a list \<Rightarrow> 'a \<Rightarrow> int" where
  "indexOf xs x = indexOf_from 0 xs x"

definition config_replacer :: "string \<Rightarrow> 'n jsval \<Rightarrow> 'n jsval" where
  "config_replacer k v =
     (if indexOf [''store'', ''secret''] k > -1 then JStr ''[NOT PARSED]'' else v)"

subsection \<open>JSON.stringify with that replacer\<close>

definition hex_digit :: "nat \<Rightarrow> char" where
  "hex_digit n = ''0123456789abcdef'' ! (n mod 16)"

text \<open>
  String quoting of JSON: the two-character escapes, a six-character escape for the other
  control characters, every other character as it is.
\<close>

definition json_escape :: "char \<Rightarrow> string" where
  "json_escape c =
     (if c = CHR 0x08 then [CHR 0x5C, CHR ''b'']
      else if c = CHR 0x09 then [CHR 0x5C, CHR ''t'']
      else if c = CHR 0x0A then [CHR 0x5C, CHR ''n'']
      else if c = CHR 0x0C then [CHR 0x5C, CHR ''f'']
      else if c = CHR 0x0D then [CHR 0x5C, CHR ''r'']
      else if c = CHR 0x22 then [CHR 0x5C, CHR 0x22]
      else if c = CHR 0x5C then [CHR 0x5C, CHR 0x5C]
      else if of_char c < (32 :: nat)
        then [CHR 0x5C, CHR ''u'', CHR ''0'', CHR ''0'',
              hex_digit (of_char c div 16), hex_digit (of_char c)]
      else [c])"

definition json_quote :: "string \<Rightarrow> string" where
  "json_quote s = [CHR 0x22] @ concat (map json_escape s) @ [CHR 0x22]"

fun join_comma :: "string list \<Rightarrow> string" where
  "join_comma [] = []"
| "join_comma [s] = s"
| "join_comma (s # t # ts) = s @ '','' @ join_comma (t # ts)"

text \<open>The key under which an array element is handed to the replacer: its index in decimal.\<close>

function show_index :: "nat \<Rightarrow> string" where
  "show_index n =
     (if n < 10 then [''0123456789'' ! n]
      else show_index (n div 10) @ [''0123456789'' ! (n mod 10)])"
  by pat_completeness auto
termination
  by (relation "measure id") auto

declare show_index.simps [simp del]

text \<open>
  Serialisation of one property value after the replacer has been applied to it, of the
  elements of an array from a given index on, and of the members of an object. \<open>None\<close> is
  \<open>undefined\<close>: such a member is left out of an object and is \<open>null\<close> in an array. The
  replacer is called on every element and member before it is serialised. The parameter
  \<open>ns\<close> is the text of a number (\<open>null\<close> for a number that is not finite). The values
  are finite trees of plain data: no cycle, no getter and no \<open>toJSON\<close> method, which
  \<open>JSON.stringify\<close> would call before the replacer.
\<close>

function serialize_property :: "('n \<Rightarrow> string) \<Rightarrow> 'n jsval \<Rightarrow> string option"
  and serialize_elements :: "('n \<Rightarrow> string) \<Rightarrow> nat \<Rightarrow> 'n jsval list \<Rightarrow> string list"
  and serialize_members :: "('n \<Rightarrow> string) \<Rightarrow> (string \<times> 'n jsval) list \<Rightarrow> string list" where
  "serialize_property ns JUndefined = None"
| "serialize_property ns JFun = None"
| "serialize_property ns JNull = Some ''null''"
| "serialize_property ns (JBool b) = Some (if b then ''true'' else ''false'')"
| "serialize_property ns (JNum n) = Some (ns n)"
| "serialize_property ns (JStr s) = Some (json_quote s)"
| "serialize_property ns (JArr xs) =
     Some (''['' @ join_comma (serialize_elements ns 0 xs) @ '']'')"
| "serialize_property ns (JObj kvs) =
     Some (''{'' @ join_comma (serialize_members ns kvs) @ ''}'')"
| "serialize_elements ns i [] = []"
| "serialize_elements ns i (x # xs) =
     (case serialize_property ns (config_replacer (show_index i) x) of
        None \<Rightarrow> ''null''
      | Some s \<Rightarrow> s) # serialize_elements ns (Suc i) xs"
| "serialize_members ns [] = []"
| "serialize_members ns ((k, v) # kvs) =
     (case serialize_property ns (config_replacer k v) of
        None \<Rightarrow> serialize_members ns kvs
      | Some s \<Rightarrow> (json_quote k @ '':'' @ s) # serialize_members ns kvs)"
  by pat_completeness auto
termination
  by (relation "measure (\<lambda>x. case x of
        Inl (ns, v) \<Rightarrow> 2 * size v
      | Inr (Inl (ns, i, xs)) \<Rightarrow> 2 * size_list size xs + 1
      | Inr (Inr (ns, kvs)) \<Rightarrow> 2 * size_list (size_prod (\<lambda>x. 0) size) kvs + 1)")
     (auto simp: config_replacer_def)

text \<open>
  \<open>JSON.stringify(validatedConfig, replacer)\<close>: the root is handed to the replacer under
  the empty key.
\<close>

definition stringify_config :: "('n \<Rightarrow> string) \<Rightarrow> 'n jsval \<Rightarrow> string option" where
  "stringify_config ns v = serialize_property ns (config_replacer [] v)"

subsection \<open>ingestConfig\<close>

text \<open>
  \<open>ingest\<close> of lib/ConfigIngestor.js is a parameter: it answers with the validated
  configuration or throws (\<open>Inl\<close>, the message of the exception). \<open>ingestConfig\<close> returns
  the validated configuration and what it logged, or throws the wrapped message and logs
  nothing.
\<close>

definition ingestConfig ::
  "('cfg \<Rightarrow> string + 'n jsval) \<Rightarrow> ('n \<Rightarrow> string) \<Rightarrow> 'cfg \<Rightarrow> string + ('n jsval \<times> event list)" where
  "ingestConfig ingest ns config =
     (case ingest config of
        Inl message \<Rightarrow> Inl (''[CONFIG ERROR] '' @ message)
      | Inr validatedConfig \<Rightarrow>
          (let jsonConfig = stringify_config ns validatedConfig
           in Inr (validatedConfig, [LogInfo ''Parsed config: %s'' [jsonConfig]])))"

text \<open>
  Two values that differ only in what stands under a \<open>store\<close> or \<open>secret\<close> key, at any
  depth: the same shape, the same keys in the same order, the same values everywhere else.
\<close>

fun differ_only_in_secrets :: "'n jsval \<Rightarrow> 'n jsval \<Rightarrow> bool"
  and elements_differ_only_in_secrets :: "'n jsval list \<Rightarrow> 'n jsval list \<Rightarrow> bool"
  and members_differ_only_in_secrets ::
    "(string \<times> 'n jsval) list \<Rightarrow> (string \<times> 'n jsval) list \<Rightarrow> bool" where
  "differ_only_in_secrets (JArr xs) (JArr ys) = elements_differ_only_in_secrets xs ys"
| "differ_only_in_secrets (JObj kvs) (JObj kws) = members_differ_only_in_secrets kvs kws"
| "differ_only_in_secrets v w = (v = w)"
| "elements_differ_only_in_secrets [] [] = True"
| "elements_differ_only_in_secrets (x # xs) (y # ys) =
     (differ_only_in_secrets x y \<and> elements_differ_only_in_secrets xs ys)"
| "elements_differ_only_in_secrets _ _ = False"
| "members_differ_only_in_secrets [] [] = True"
| "members_differ_only_in_secrets ((k, v) # kvs) ((l, w) # kws) =
     (k = l \<and> (k = ''store'' \<or> k = ''secret'' \<or> differ_only_in_secrets v w)
      \<and> members_differ_only_in_secrets kvs kws)"
| "members_differ_only_in_secrets _ _ = False"

text \<open>What a run of \<open>ingestConfig\<close> wrote to the log: nothing when it threw.\<close>

definition logged :: "string + ('n jsval \<times> event list) \<Rightarrow> event list" where
  "logged r = (case r of Inl _ \<Rightarrow> [] | Inr (_, evs) \<Rightarrow> evs)"

subsection \<open>A configuration to run it on\<close>

text \<open>
  A validated configuration of the shape casa.js reads (\<open>mountUrl\<close>, \<open>i18n.locales\<close>,
  \<open>sessions.secret\<close>, \<open>sessions.store\<close>, ...), with the two secret values left open.
\<close>

definition example_config :: "nat jsval \<Rightarrow> nat jsval \<Rightarrow> nat jsval" where
  "example_config secret store =
     JObj [(''mountUrl'', JStr ''/''),
           (''mountController'', JFun),
           (''i18n'', JObj [(''locales'', JArr [JStr ''en'', JStr ''cy''])]),
           (''sessions'', JObj [(''name'', JStr ''sid''), (''secret'', secret),
                                (''ttl'', JNum 3600), (''store'', store)])]"

section \<open>Facts about the definitions\<close>

subsection \<open>Collapsing slashes\<close>

lemma drop_repeated_head: "\<exists>t. drop_repeated_slashes (c # cs) = c # t"
  by (induction cs arbitrary: c) auto

lemma no_double_slash_drop_repeated: "no_double_slash (drop_repeated_slashes s)"
proof (induction s rule: drop_repeated_slashes.induct)
  case (1 c d cs)
  obtain t where t: "drop_repeated_slashes (d # cs) = d # t"
    using drop_repeated_head by blast
  with 1 show ?case by auto
qed simp_all

lemma drop_repeated_slash_run:
  "drop_repeated_slashes (CHR ''/'' # cs)
     = CHR ''/'' # drop_repeated_slashes (dropWhile (\<lambda>d. d = CHR ''/'') cs)"
proof (induction cs)
  case Nil
  show ?case by simp
next
  case (Cons d cs)
  show ?case
  proof (cases "d = CHR ''/''")
    case True
    with Cons show ?thesis by simp
  next
    case False
    then show ?thesis by (cases cs) auto
  qed
qed

lemma drop_repeated_other:
  "c \<noteq> CHR ''/'' \<Longrightarrow> drop_repeated_slashes (c # cs) = c # drop_repeated_slashes cs"
  by (cases cs) auto

lemma collapse_slashes_eq: "collapse_slashes s = drop_repeated_slashes s"
proof (induction s rule: collapse_slashes.induct)
  case 1
  show ?case by simp
next
  case (2 c cs)
  show ?case
  proof (cases "c = CHR ''/''")
    case True
    with 2 show ?thesis by (simp add: drop_repeated_slash_run)
  next
    case False
    with 2 show ?thesis by (simp add: drop_repeated_other)
  qed
qed

subsection \<open>The three outcomes of the middleware\<close>

lemma origin_segment:
  "or_empty (originId (case journeyOrigin req of None \<Rightarrow> \<lparr>originId = Some []\<rparr> | Some o' \<Rightarrow> o'))
     = current_origin_id req"
  by (simp add: current_origin_id_def or_empty_def split: option.split)

lemma skip_absent:
  "query_skipto req = None \<Longrightarrow> skip jc save mountUrl req = (req, [NextCalled])"
  by (simp add: skip_def)

lemma skip_rejected:
  "query_skipto req = Some q \<Longrightarrow> \<not> accepted_skipto q \<Longrightarrow>
   skip jc save mountUrl req = (req, [Respond (Send 400 ''Invalid waypoint'')])"
  by (cases q) (simp_all add: skip_def)

lemma skip_accepted:
  "query_skipto req = Some (QStr s) \<Longrightarrow> skipto_match s \<Longrightarrow>
   skip jc save mountUrl req =
     (req\<lparr>journeyData := mark_skipped jc (journeyWaypointId req) (journeyData req),
          session := persist_to_session jc
            (mark_skipped jc (journeyWaypointId req) (journeyData req)) (session req)\<rparr>,
      [LogInfo ''Marking waypoint %s as skipped'' [Some (journeyWaypointId req)], SessionSave]
      @ (case save (persist_to_session jc
            (mark_skipped jc (journeyWaypointId req) (journeyData req)) (session req)) of
           None \<Rightarrow> [] | Some err \<Rightarrow> [LogError err])
      @ [Respond (Redirect 302
           (collapse_slashes (mountUrl @ ''/'' @ current_origin_id req @ ''/'' @ s)))])"
  by (simp add: skip_def Let_def redirect_target_def origin_segment)

lemma accepted_skipto_iff: "accepted_skipto q \<longleftrightarrow> (\<exists>s. q = QStr s \<and> skipto_match s)"
  by (cases q) simp_all

lemma spec_class_subset: "spec_id_class c \<Longrightarrow> skipto_class c"
  by (auto simp: spec_id_class_def skipto_class_def)

lemma spec_pattern_subset: "spec_id_pattern s \<Longrightarrow> skipto_match s"
  by (auto simp: spec_id_pattern_def skipto_match_def list_all_iff spec_class_subset)

lemmas pattern_defs = skipto_match_def skipto_class_def spec_id_pattern_def spec_id_class_def
  ascii_lower_def ascii_upper_def ascii_digit_def

lemma example_request_simps [simp]:
  "query_skipto (example_request q) = q"
  "journeyWaypointId (example_request q) = ''step-two''"
  "current_origin_id (example_request q) = ''main''"
  "session (example_request q) = \<lparr>sess_journeyData = None, sess_journeyValidationErrors = None\<rparr>"
  "journeyData (example_request q) =
     \<lparr>data = [''step-two'' \<mapsto> JObj [(''name'', JStr ''x'')]],
      validation = [''step-two'' \<mapsto> [''name is required'']]\<rparr>"
  by (simp_all add: example_request_def current_origin_id_def or_empty_def)

lemma skip_accepted':
  "query_skipto req = Some (QStr s) \<Longrightarrow> skipto_match s \<Longrightarrow>
   skip jc save mountUrl req =
     (req\<lparr>journeyData := mark_skipped jc (journeyWaypointId req) (journeyData req),
          session := session_to_save jc req\<rparr>,
      [LogInfo ''Marking waypoint %s as skipped'' [Some (journeyWaypointId req)], SessionSave]
      @ (case save (session_to_save jc req) of None \<Rightarrow> [] | Some err \<Rightarrow> [LogError err])
      @ [Respond (Redirect 302 (collapse_slashes (joined_path mountUrl req s)))])"
  by (simp add: skip_accepted session_to_save_def joined_path_def)


subsection \<open>The journey context of the specification under the middleware\<close>

lemma mark_skipped_spec:
  "mark_skipped spec_JourneyContext w jd
     = jd\<lparr>data := (data jd)(w \<mapsto> skip_marker), validation := (validation jd)(w := None)\<rparr>"
  by (simp add: mark_skipped_def spec_JourneyContext_def setDataForWaypoint_def
      clearValidationErrors_def skip_marker_def)

lemma mark_skipped_spec_steps:
  "mark_skipped spec_JourneyContext w jd
     = setDataForWaypoint w skip_marker (clearValidationErrors w jd)"
  by (simp add: mark_skipped_def spec_JourneyContext_def)

lemma persist_to_session_spec:
  "persist_to_session spec_JourneyContext jd sess
     = sess\<lparr>sess_journeyData := Some (data jd), sess_journeyValidationErrors := Some (validation jd)\<rparr>"
  by (simp add: persist_to_session_def spec_JourneyContext_def)

lemma session_to_save_spec:
  "session_to_save spec_JourneyContext req
     = (session req)
         \<lparr>sess_journeyData := Some (data (mark_skipped spec_JourneyContext (journeyWaypointId req) (journeyData req))),
          sess_journeyValidationErrors :=
            Some (validation (mark_skipped spec_JourneyContext (journeyWaypointId req) (journeyData req)))\<rparr>"
  by (simp add: session_to_save_def persist_to_session_def spec_JourneyContext_def)

lemma mark_skipped_spec_twice:
  "mark_skipped spec_JourneyContext w (mark_skipped spec_JourneyContext w jd)
     = mark_skipped spec_JourneyContext w jd"
  by (simp add: mark_skipped_spec)

lemma skip_not_accepted:
  "\<not> skip_accepts req \<Longrightarrow> skip jc save mountUrl req = (req, [NextCalled])
     \<or> skip jc save mountUrl req = (req, [Respond (Send 400 ''Invalid waypoint'')])"
  by (cases "query_skipto req") (simp_all add: skip_accepts_def skip_absent skip_rejected)

subsection \<open>The replacer and the serialisation\<close>

lemma show_index_digits: "list_all ascii_digit (show_index n)"
proof (induction n rule: show_index.induct)
  case (1 n)
  have d: "ascii_digit (''0123456789'' ! m)" if "m < 10" for m
  proof -
    from that have "m \<in> {0, 1, 2, 3, 4, 5, 6, 7, 8, 9}" by auto
    then show ?thesis by (auto simp: ascii_digit_def)
  qed
  show ?case
  proof (cases "n < 10")
    case True
    then show ?thesis by (subst show_index.simps) (simp add: d)
  next
    case False
    with 1 show ?thesis by (subst show_index.simps) (simp add: d)
  qed
qed

lemma replacer_index: "config_replacer (show_index i) v = v"
proof -
  have "list_all ascii_digit (show_index i)" by (rule show_index_digits)
  moreover have "\<not> list_all ascii_digit ''store''" "\<not> list_all ascii_digit ''secret''"
    by (simp_all add: ascii_digit_def)
  ultimately have "show_index i \<noteq> ''store''" "show_index i \<noteq> ''secret''" by metis+
  then show ?thesis by (simp add: config_replacer_def indexOf_def)
qed

lemma replacer_secret:
  "k = ''store'' \<or> k = ''secret'' \<Longrightarrow> config_replacer k v = JStr ''[NOT PARSED]''"
  by (auto simp: config_replacer_def indexOf_def)

lemma replacer_other: "k \<noteq> ''store'' \<Longrightarrow> k \<noteq> ''secret'' \<Longrightarrow> config_replacer k v = v"
  by (auto simp: config_replacer_def indexOf_def)

lemma serialize_differ_only_in_secrets:
  "differ_only_in_secrets v w \<Longrightarrow> serialize_property ns v = serialize_property ns w"
  "elements_differ_only_in_secrets xs ys \<Longrightarrow>
     \<forall>i. serialize_elements ns i xs = serialize_elements ns i ys"
  "members_differ_only_in_secrets kvs kws \<Longrightarrow> serialize_members ns kvs = serialize_members ns kws"
proof (induction v w and xs ys and kvs kws
    rule: differ_only_in_secrets_elements_differ_only_in_secrets_members_differ_only_in_secrets.induct)
  case (5 x xs y ys)
  then show ?case by (simp add: replacer_index)
next
  case (8 k v kvs l w kws)
  show ?case
  proof (cases "k = ''store'' \<or> k = ''secret''")
    case True
    with 8 show ?thesis by (simp add: replacer_secret)
  next
    case False
    with 8 have d: "differ_only_in_secrets v w" and m: "members_differ_only_in_secrets kvs kws"
      and kl: "k = l" by auto
    from 8(1) [OF d] 8(2) [OF m] kl False show ?thesis
      by (simp add: replacer_other split: option.split)
  qed
qed simp_all

lemma stringify_differ_only_in_secrets:
  "differ_only_in_secrets v w \<Longrightarrow> stringify_config ns v = stringify_config ns w"
  by (simp add: stringify_config_def replacer_other serialize_differ_only_in_secrets(1))

section \<open>Claims about the skip middleware\<close>

text \<open>
  C1, as amended. When \<open>skipto\<close> is present and is not a string matching the pattern of the
  code, which is the pattern of the specification matched without regard to case, the
  middleware answers 400 with the body \<open>Invalid waypoint\<close> and returns the request (journey
  data, validation errors, session) unchanged, with no other effect. When it is such a
  string no 400 response is sent. Every string the pattern of the specification accepts is
  accepted.
\<close>

theorem skip_invalid_rejected:
  assumes "query_skipto req = Some q"
  shows "(\<not> accepted_skipto q \<longrightarrow>
            skip jc save mountUrl req = (req, [Respond (Send 400 ''Invalid waypoint'')]))
       \<and> (accepted_skipto q \<longrightarrow>
            (\<forall>body. Respond (Send 400 body) \<notin> set (snd (skip jc save mountUrl req))))
       \<and> (\<forall>s. q = QStr s \<and> spec_id_pattern s \<longrightarrow> accepted_skipto q)"
proof (intro conjI impI allI)
  assume "\<not> accepted_skipto q"
  with assms show "skip jc save mountUrl req = (req, [Respond (Send 400 ''Invalid waypoint'')])"
    by (rule skip_rejected)
next
  fix body
  assume "accepted_skipto q"
  then obtain s where s: "q = QStr s" "skipto_match s"
    by (auto simp: accepted_skipto_iff)
  with assms have q: "query_skipto req = Some (QStr s)" by simp
  show "Respond (Send 400 body) \<notin> set (snd (skip jc save mountUrl req))"
    by (simp add: skip_accepted [OF q s(2)] split: option.split)
next
  fix s
  assume "q = QStr s \<and> spec_id_pattern s"
  then show "accepted_skipto q" by (auto dest: spec_pattern_subset)
qed

theorem skip_invalid_rejected_witness:
  "\<not> accepted_skipto (QArr [QStr ''a'', QStr ''b''])
   \<and> skip spec_JourneyContext (\<lambda>_. None) ''/'' (example_request (Some (QArr [QStr ''a'', QStr ''b''])))
       = (example_request (Some (QArr [QStr ''a'', QStr ''b''])), [Respond (Send 400 ''Invalid waypoint'')])
   \<and> \<not> accepted_skipto (QStr ''../admin'')
   \<and> skip spec_JourneyContext (\<lambda>_. None) ''/'' (example_request (Some (QStr ''../admin'')))
       = (example_request (Some (QStr ''../admin'')), [Respond (Send 400 ''Invalid waypoint'')])
   \<and> accepted_skipto (QStr ''step-four'')
   \<and> Respond (Send 400 ''Invalid waypoint'')
       \<notin> set (snd (skip spec_JourneyContext (\<lambda>_. None) ''/'' (example_request (Some (QStr ''step-four'')))))"
proof -
  have a: "\<not> accepted_skipto (QArr [QStr ''a'', QStr ''b''])" by simp
  have b: "\<not> accepted_skipto (QStr ''../admin'')" by (simp add: pattern_defs)
  have c: "accepted_skipto (QStr ''step-four'')" by (simp add: pattern_defs)
  have q: "query_skipto (example_request (Some x)) = Some x" for x by simp
  from skip_invalid_rejected [OF q, of "QArr [QStr ''a'', QStr ''b'']" spec_JourneyContext "\<lambda>_. None" "''/''"]
    skip_invalid_rejected [OF q, of "QStr ''../admin''" spec_JourneyContext "\<lambda>_. None" "''/''"]
    skip_invalid_rejected [OF q, of "QStr ''step-four''" spec_JourneyContext "\<lambda>_. None" "''/''"]
    a b c
  show ?thesis by blast
qed

text \<open>
  C1 as the specification states it fails: \<open>Step-Four\<close> does not match the lower-case
  pattern, yet the middleware marks the waypoint, changes the session and redirects.
\<close>

theorem skip_invalid_rejected_counterexample:
  "query_skipto (example_request (Some (QStr ''Step-Four''))) = Some (QStr ''Step-Four'')
   \<and> \<not> spec_id_pattern ''Step-Four''
   \<and> snd (skip spec_JourneyContext (\<lambda>_. None) ''/'' (example_request (Some (QStr ''Step-Four''))))
       = [LogInfo ''Marking waypoint %s as skipped'' [Some ''step-two''], SessionSave,
          Respond (Redirect 302 ''/main/Step-Four'')]
   \<and> fst (skip spec_JourneyContext (\<lambda>_. None) ''/'' (example_request (Some (QStr ''Step-Four''))))
       \<noteq> example_request (Some (QStr ''Step-Four''))"
proof -
  have q: "query_skipto (example_request (Some (QStr ''Step-Four''))) = Some (QStr ''Step-Four'')"
    by simp
  have m: "skipto_match ''Step-Four''" by (simp add: pattern_defs)
  have n: "\<not> spec_id_pattern ''Step-Four''" by (simp add: pattern_defs)
  have s: "sess_journeyData (session_to_save spec_JourneyContext (example_request (Some (QStr ''Step-Four'')))) \<noteq> None"
    by (simp add: session_to_save_def persist_to_session_def)
  have s0: "sess_journeyData (session (example_request (Some (QStr ''Step-Four'')))) = None"
    by simp
  have ne: "fst (skip spec_JourneyContext (\<lambda>_. None) ''/'' (example_request (Some (QStr ''Step-Four''))))
       \<noteq> example_request (Some (QStr ''Step-Four''))"
  proof
    assume "fst (skip spec_JourneyContext (\<lambda>_. None) ''/'' (example_request (Some (QStr ''Step-Four''))))
       = example_request (Some (QStr ''Step-Four''))"
    then have "session (fst (skip spec_JourneyContext (\<lambda>_. None) ''/'' (example_request (Some (QStr ''Step-Four'')))))
       = session (example_request (Some (QStr ''Step-Four'')))" by simp
    then have "session_to_save spec_JourneyContext (example_request (Some (QStr ''Step-Four'')))
       = session (example_request (Some (QStr ''Step-Four'')))"
      by (simp add: skip_accepted' [OF q m])
    with s s0 show False by metis
  qed
  show ?thesis
    using n ne by (simp add: skip_accepted' [OF q m] joined_path_def)
qed

text \<open>
  C2. With the journey context of the specification under it, the middleware on an accepted
  \<open>skipto\<close> leaves as the stored data of the current waypoint exactly the object with the
  one key \<open>__skipped__\<close> and the value true, whatever data or errors were stored before;
  the context reports the waypoint as skipped and the session receives the same data.
\<close>

theorem skip_overwrites_with_marker:
  assumes "query_skipto req = Some (QStr s)" and "skipto_match s"
  shows "data (journeyData (fst (skip spec_JourneyContext save mountUrl req))) (journeyWaypointId req)
           = Some (JObj [(''__skipped__'', JBool True)])
       \<and> getDataForWaypoint (journeyWaypointId req)
            (journeyData (fst (skip spec_JourneyContext save mountUrl req)))
           = JObj [(''__skipped__'', JBool True)]
       \<and> isSkipped (journeyWaypointId req) (journeyData (fst (skip spec_JourneyContext save mountUrl req)))
       \<and> sess_journeyData (session (fst (skip spec_JourneyContext save mountUrl req)))
           = Some (data (journeyData (fst (skip spec_JourneyContext save mountUrl req))))"
  by (simp add: skip_accepted' [OF assms] mark_skipped_spec session_to_save_spec
      getDataForWaypoint_def isSkipped_def skip_marker_def)

theorem skip_overwrites_with_marker_witness:
  "query_skipto (example_request (Some (QStr ''step-four''))) = Some (QStr ''step-four'')
   \<and> skipto_match ''step-four''
   \<and> data (journeyData (example_request (Some (QStr ''step-four'')))) ''step-two''
       = Some (JObj [(''name'', JStr ''x'')])
   \<and> data (journeyData (fst (skip spec_JourneyContext (\<lambda>_. None) ''/''
         (example_request (Some (QStr ''step-four'')))))) ''step-two''
       = Some (JObj [(''__skipped__'', JBool True)])"
proof -
  have q: "query_skipto (example_request (Some (QStr ''step-four''))) = Some (QStr ''step-four'')"
    by simp
  have m: "skipto_match ''step-four''" by (simp add: pattern_defs)
  from skip_overwrites_with_marker [OF q m, of "\<lambda>_. None" "''/''"]
  show ?thesis using m by simp
qed

text \<open>
  C3. With the journey context of the specification under it, the middleware on an accepted
  \<open>skipto\<close> clears the validation errors of the current waypoint and then writes the
  marker: the resulting context, and the copy handed to the session, hold no errors for that
  waypoint.
\<close>

theorem skip_clears_validation_errors:
  assumes "query_skipto req = Some (QStr s)" and "skipto_match s"
  shows "journeyData (fst (skip spec_JourneyContext save mountUrl req))
           = setDataForWaypoint (journeyWaypointId req) skip_marker
               (clearValidationErrors (journeyWaypointId req) (journeyData req))
       \<and> validation (journeyData (fst (skip spec_JourneyContext save mountUrl req)))
            (journeyWaypointId req) = None
       \<and> errorsForWaypoint (journeyWaypointId req)
            (journeyData (fst (skip spec_JourneyContext save mountUrl req))) = []
       \<and> sess_journeyValidationErrors (session (fst (skip spec_JourneyContext save mountUrl req)))
           = Some (validation (journeyData (fst (skip spec_JourneyContext save mountUrl req))))"
  by (simp add: skip_accepted' [OF assms] mark_skipped_spec_steps [symmetric]
      mark_skipped_spec session_to_save_spec errorsForWaypoint_def)

theorem skip_clears_validation_errors_witness:
  "query_skipto (example_request (Some (QStr ''step-four''))) = Some (QStr ''step-four'')
   \<and> skipto_match ''step-four''
   \<and> errorsForWaypoint ''step-two'' (journeyData (example_request (Some (QStr ''step-four''))))
       = [''name is required'']
   \<and> errorsForWaypoint ''step-two'' (journeyData (fst (skip spec_JourneyContext (\<lambda>_. None) ''/''
         (example_request (Some (QStr ''step-four'')))))) = []"
proof -
  have q: "query_skipto (example_request (Some (QStr ''step-four''))) = Some (QStr ''step-four'')"
    by simp
  have m: "skipto_match ''step-four''" by (simp add: pattern_defs)
  from skip_clears_validation_errors [OF q m, of "\<lambda>_. None" "''/''"]
  show ?thesis using m by (simp add: errorsForWaypoint_def setDataForWaypoint_def clearValidationErrors_def)
qed

text \<open>
  C4. On an accepted \<open>skipto\<close> the effects are the log line, the session save, the save
  error if there is one, and last the response: status 302, redirecting to mountUrl, the
  current origin id (empty when no origin is set) and \<open>skipto\<close> joined by slashes, with every
  slash that follows a slash deleted, so that no two slashes are neighbours.
\<close>

theorem skip_redirects_to_target:
  assumes "query_skipto req = Some (QStr s)" and "skipto_match s"
  shows "snd (skip jc save mountUrl req)
           = [LogInfo ''Marking waypoint %s as skipped'' [Some (journeyWaypointId req)], SessionSave]
             @ (case save (session_to_save jc req) of None \<Rightarrow> [] | Some err \<Rightarrow> [LogError err])
             @ [Respond (Redirect 302 (drop_repeated_slashes (joined_path mountUrl req s)))]
       \<and> no_double_slash (drop_repeated_slashes (joined_path mountUrl req s))"
  by (simp add: skip_accepted' [OF assms] collapse_slashes_eq no_double_slash_drop_repeated)

theorem skip_redirects_to_target_witness:
  "skipto_match ''step-four''
   \<and> joined_path ''/'' (example_request (Some (QStr ''step-four''))) ''step-four'' = ''//main/step-four''
   \<and> snd (skip spec_JourneyContext (\<lambda>_. None) ''/'' (example_request (Some (QStr ''step-four''))))
       = [LogInfo ''Marking waypoint %s as skipped'' [Some ''step-two''], SessionSave,
          Respond (Redirect 302 ''/main/step-four'')]
   \<and> joined_path ''/app/'' ((example_request (Some (QStr ''step-four'')))\<lparr>journeyOrigin := None\<rparr>) ''step-four''
       = ''/app///step-four''
   \<and> snd (skip spec_JourneyContext (\<lambda>_. None) ''/app/''
        ((example_request (Some (QStr ''step-four'')))\<lparr>journeyOrigin := None\<rparr>))
       = [LogInfo ''Marking waypoint %s as skipped'' [Some ''step-two''], SessionSave,
          Respond (Redirect 302 ''/app/step-four'')]"
proof -
  let ?r = "example_request (Some (QStr ''step-four''))"
  have q: "query_skipto ?r = Some (QStr ''step-four'')" by simp
  have q': "query_skipto (?r\<lparr>journeyOrigin := None\<rparr>) = Some (QStr ''step-four'')" by simp
  have m: "skipto_match ''step-four''" by (simp add: pattern_defs)
  have j: "joined_path ''/'' ?r ''step-four'' = ''//main/step-four''"
    by (simp add: joined_path_def)
  have j': "joined_path ''/app/'' (?r\<lparr>journeyOrigin := None\<rparr>) ''step-four'' = ''/app///step-four''"
    by (simp add: joined_path_def current_origin_id_def)
  from skip_redirects_to_target [OF q m, of spec_JourneyContext "\<lambda>_. None" "''/''"]
    skip_redirects_to_target [OF q' m, of spec_JourneyContext "\<lambda>_. None" "''/app/''"]
  show ?thesis using m j j' by simp
qed

text \<open>
  C5. With the journey context of the specification under it, running the middleware a
  second time on the request the first run left behind gives the same request again:
  journey data, validation errors and session contents. This holds for every request,
  accepted or not, and whatever the session store answers to either save.
\<close>

theorem skip_idempotent:
  "fst (skip spec_JourneyContext save' mountUrl (fst (skip spec_JourneyContext save mountUrl req)))
     = fst (skip spec_JourneyContext save mountUrl req)"
proof (cases "query_skipto req")
  case None
  then show ?thesis by (simp add: skip_absent)
next
  case (Some q)
  show ?thesis
  proof (cases "accepted_skipto q")
    case False
    with Some show ?thesis by (simp add: skip_rejected)
  next
    case True
    then obtain s where s: "q = QStr s" "skipto_match s"
      by (auto simp: accepted_skipto_iff)
    with Some have q: "query_skipto req = Some (QStr s)" by simp
    let ?r = "fst (skip spec_JourneyContext save mountUrl req)"
    have r: "?r = req\<lparr>journeyData := mark_skipped spec_JourneyContext (journeyWaypointId req) (journeyData req),
          session := session_to_save spec_JourneyContext req\<rparr>"
      by (simp add: skip_accepted' [OF q s(2)])
    have q': "query_skipto ?r = Some (QStr s)" by (simp add: r q)
    show ?thesis
      by (simp add: skip_accepted' [OF q' s(2)]) (simp add: r session_to_save_spec mark_skipped_spec_twice)
  qed
qed

theorem skip_idempotent_witness:
  "fst (skip spec_JourneyContext (\<lambda>_. Some (StoreError ''store down'')) ''/''
          (fst (skip spec_JourneyContext (\<lambda>_. None) ''/'' (example_request (Some (QStr ''step-four''))))))
     = fst (skip spec_JourneyContext (\<lambda>_. None) ''/'' (example_request (Some (QStr ''step-four''))))
   \<and> data (journeyData (fst (skip spec_JourneyContext (\<lambda>_. None) ''/''
         (example_request (Some (QStr ''step-four'')))))) ''step-two'' = Some skip_marker"
proof -
  have q: "query_skipto (example_request (Some (QStr ''step-four''))) = Some (QStr ''step-four'')"
    by simp
  have m: "skipto_match ''step-four''" by (simp add: pattern_defs)
  from skip_idempotent [of "\<lambda>_. Some (StoreError ''store down'')" "''/''" "\<lambda>_. None"
      "example_request (Some (QStr ''step-four''))"]
  show ?thesis by (simp add: skip_accepted' [OF q m] mark_skipped_spec)
qed

text \<open>
  C6, as amended. The skip middleware is the whole skip operation and writes its effects
  itself. With \<open>skipto\<close> absent it writes no log line and no response. With \<open>skipto\<close>
  present it sends exactly one response, as its last effect. On a rejected \<open>skipto\<close> that
  response, status 400 with the body \<open>Invalid waypoint\<close>, is its only effect. On an
  accepted \<open>skipto\<close> the response is the 302 redirect whose path it builds itself from
  mountUrl, origin id and \<open>skipto\<close>, and its log lines are the info line and, after a
  failed save, the error.
\<close>

theorem skip_writes_log_and_response_itself:
  "(query_skipto req = None \<longrightarrow>
      filter is_log (snd (skip jc save mountUrl req)) = []
      \<and> filter is_response (snd (skip jc save mountUrl req)) = [])
   \<and> (query_skipto req \<noteq> None \<longrightarrow>
      length (filter is_response (snd (skip jc save mountUrl req))) = 1
      \<and> is_response (last (snd (skip jc save mountUrl req))))
   \<and> (query_skipto req = Some q \<and> \<not> accepted_skipto q \<longrightarrow>
      snd (skip jc save mountUrl req) = [Respond (Send 400 ''Invalid waypoint'')])
   \<and> (query_skipto req = Some (QStr s) \<and> skipto_match s \<longrightarrow>
      filter is_response (snd (skip jc save mountUrl req))
        = [Respond (Redirect 302 (collapse_slashes (joined_path mountUrl req s)))]
      \<and> filter is_log (snd (skip jc save mountUrl req))
        = LogInfo ''Marking waypoint %s as skipped'' [Some (journeyWaypointId req)]
          # (case save (session_to_save jc req) of None \<Rightarrow> [] | Some err \<Rightarrow> [LogError err]))"
proof (intro conjI impI)
  assume "query_skipto req = None"
  then show "filter is_log (snd (skip jc save mountUrl req)) = []"
    and "filter is_response (snd (skip jc save mountUrl req)) = []"
    by (simp_all add: skip_absent)
next
  assume "query_skipto req \<noteq> None"
  then obtain q where q: "query_skipto req = Some q" by auto
  have "length (filter is_response (snd (skip jc save mountUrl req))) = 1
      \<and> is_response (last (snd (skip jc save mountUrl req)))"
  proof (cases "accepted_skipto q")
    case False
    with q show ?thesis by (simp add: skip_rejected)
  next
    case True
    then obtain s' where s': "q = QStr s'" "skipto_match s'"
      by (auto simp: accepted_skipto_iff)
    with q have q': "query_skipto req = Some (QStr s')" by simp
    show ?thesis by (simp add: skip_accepted' [OF q' s'(2)] split: option.split)
  qed
  then show "length (filter is_response (snd (skip jc save mountUrl req))) = 1"
    and "is_response (last (snd (skip jc save mountUrl req)))" by simp_all
next
  assume "query_skipto req = Some q \<and> \<not> accepted_skipto q"
  then have "query_skipto req = Some q" and "\<not> accepted_skipto q" by simp_all
  then show "snd (skip jc save mountUrl req) = [Respond (Send 400 ''Invalid waypoint'')]"
    by (simp add: skip_rejected)
next
  assume a: "query_skipto req = Some (QStr s) \<and> skipto_match s"
  then have q: "query_skipto req = Some (QStr s)" and m: "skipto_match s" by simp_all
  show "filter is_response (snd (skip jc save mountUrl req))
        = [Respond (Redirect 302 (collapse_slashes (joined_path mountUrl req s)))]"
    by (simp add: skip_accepted' [OF q m] split: option.split)
  show "filter is_log (snd (skip jc save mountUrl req))
        = LogInfo ''Marking waypoint %s as skipped'' [Some (journeyWaypointId req)]
          # (case save (session_to_save jc req) of None \<Rightarrow> [] | Some err \<Rightarrow> [LogError err])"
    by (simp add: skip_accepted' [OF q m] split: option.split)
qed

theorem skip_writes_log_and_response_itself_witness:
  "query_skipto (example_request (Some (QStr ''step-four''))) = Some (QStr ''step-four'')
   \<and> skipto_match ''step-four''
   \<and> filter is_response (snd (skip spec_JourneyContext (\<lambda>_. None) ''/''
        (example_request (Some (QStr ''step-four'')))))
       = [Respond (Redirect 302 ''/main/step-four'')]
   \<and> filter is_log (snd (skip spec_JourneyContext (\<lambda>_. None) ''/''
        (example_request (Some (QStr ''step-four'')))))
       = [LogInfo ''Marking waypoint %s as skipped'' [Some ''step-two'']]
   \<and> query_skipto (example_request (Some (QStr ''../admin''))) = Some (QStr ''../admin'')
   \<and> \<not> accepted_skipto (QStr ''../admin'')
   \<and> snd (skip spec_JourneyContext (\<lambda>_. None) ''/'' (example_request (Some (QStr ''../admin''))))
       = [Respond (Send 400 ''Invalid waypoint'')]
   \<and> query_skipto (example_request None) = None
   \<and> filter is_log (snd (skip spec_JourneyContext (\<lambda>_. None) ''/'' (example_request None))) = []
   \<and> filter is_response (snd (skip spec_JourneyContext (\<lambda>_. None) ''/'' (example_request None)))
       = []"
proof -
  have m: "skipto_match ''step-four''" by (simp add: pattern_defs)
  have n: "\<not> accepted_skipto (QStr ''../admin'')" by (simp add: pattern_defs)
  note a = skip_writes_log_and_response_itself
    [where req = "example_request (Some (QStr ''step-four''))" and jc = spec_JourneyContext
       and save = "\<lambda>_. None" and mountUrl = "''/''" and s = "''step-four''"]
  note r = skip_writes_log_and_response_itself
    [where req = "example_request (Some (QStr ''../admin''))" and jc = spec_JourneyContext
       and save = "\<lambda>_. None" and mountUrl = "''/''" and q = "QStr ''../admin''"]
  note p = skip_writes_log_and_response_itself
    [where req = "example_request None" and jc = spec_JourneyContext
       and save = "\<lambda>_. None" and mountUrl = "''/''"]
  from a m have 1: "filter is_response (snd (skip spec_JourneyContext (\<lambda>_. None) ''/''
        (example_request (Some (QStr ''step-four'')))))
       = [Respond (Redirect 302 ''/main/step-four'')]"
    and 2: "filter is_log (snd (skip spec_JourneyContext (\<lambda>_. None) ''/''
        (example_request (Some (QStr ''step-four'')))))
       = [LogInfo ''Marking waypoint %s as skipped'' [Some ''step-two'']]"
    by (simp_all add: joined_path_def)
  from r n have 3: "snd (skip spec_JourneyContext (\<lambda>_. None) ''/''
        (example_request (Some (QStr ''../admin''))))
       = [Respond (Send 400 ''Invalid waypoint'')]"
    by simp
  from p have 4: "filter is_log (snd (skip spec_JourneyContext (\<lambda>_. None) ''/''
        (example_request None))) = []"
    and 5: "filter is_response (snd (skip spec_JourneyContext (\<lambda>_. None) ''/''
        (example_request None))) = []"
    by simp_all
  from m n 1 2 3 4 5 show ?thesis by simp
qed

text \<open>
  C6 as the specification states it fails: on the request of the scenario the skip operation
  writes a log line and the response, and the response carries the full path.
\<close>

theorem skip_writes_log_and_response_counterexample:
  "snd (skip spec_JourneyContext (\<lambda>_. None) ''/'' (example_request (Some (QStr ''step-four''))))
     = [LogInfo ''Marking waypoint %s as skipped'' [Some ''step-two''], SessionSave,
        Respond (Redirect 302 ''/main/step-four'')]
   \<and> list_ex is_log (snd (skip spec_JourneyContext (\<lambda>_. None) ''/''
        (example_request (Some (QStr ''step-four'')))))
   \<and> list_ex is_response (snd (skip spec_JourneyContext (\<lambda>_. None) ''/''
        (example_request (Some (QStr ''step-four'')))))"
proof -
  have q: "query_skipto (example_request (Some (QStr ''step-four''))) = Some (QStr ''step-four'')"
    by simp
  have m: "skipto_match ''step-four''" by (simp add: pattern_defs)
  show ?thesis by (simp add: skip_accepted' [OF q m] joined_path_def)
qed

text \<open>
  C7, as amended. On an accepted request the middleware itself persists: the journey
  context calls come first, then the session receives the data and the errors of the updated
  context, and \<open>req.session.save\<close> is called exactly once, before the response. On a
  request that is not accepted the request is left as it was and no save is triggered.
\<close>

theorem skip_persists_after_marking:
  "(skip_accepts req \<longrightarrow>
      journeyData (fst (skip jc save mountUrl req))
        = mark_skipped jc (journeyWaypointId req) (journeyData req)
      \<and> session (fst (skip jc save mountUrl req))
        = persist_to_session jc (journeyData (fst (skip jc save mountUrl req))) (session req)
      \<and> filter is_save (snd (skip jc save mountUrl req)) = [SessionSave]
      \<and> (\<exists>before after. snd (skip jc save mountUrl req) = before @ [SessionSave] @ after
            \<and> \<not> list_ex is_response before \<and> list_ex is_response after))
   \<and> (\<not> skip_accepts req \<longrightarrow>
      fst (skip jc save mountUrl req) = req
      \<and> filter is_save (snd (skip jc save mountUrl req)) = [])"
proof (intro conjI impI)
  assume "\<not> skip_accepts req"
  from skip_not_accepted [OF this, of jc save mountUrl]
  show "fst (skip jc save mountUrl req) = req"
    and "filter is_save (snd (skip jc save mountUrl req)) = []" by auto
next
  assume "skip_accepts req"
  then obtain s where q: "query_skipto req = Some (QStr s)" and m: "skipto_match s"
    by (auto simp: skip_accepts_def accepted_skipto_iff split: option.splits)
  note r = skip_accepted' [OF q m, of jc save mountUrl]
  show "journeyData (fst (skip jc save mountUrl req))
        = mark_skipped jc (journeyWaypointId req) (journeyData req)"
    by (simp add: r)
  show "session (fst (skip jc save mountUrl req))
        = persist_to_session jc (journeyData (fst (skip jc save mountUrl req))) (session req)"
    by (simp add: r session_to_save_def)
  show "filter is_save (snd (skip jc save mountUrl req)) = [SessionSave]"
    by (simp add: r split: option.split)
  have "snd (skip jc save mountUrl req)
      = [LogInfo ''Marking waypoint %s as skipped'' [Some (journeyWaypointId req)]] @ [SessionSave]
        @ ((case save (session_to_save jc req) of None \<Rightarrow> [] | Some err \<Rightarrow> [LogError err])
           @ [Respond (Redirect 302 (collapse_slashes (joined_path mountUrl req s)))])"
    by (simp add: r)
  moreover have "\<not> list_ex is_response
      [LogInfo ''Marking waypoint %s as skipped'' [Some (journeyWaypointId req)]]" by simp
  moreover have "list_ex is_response
      ((case save (session_to_save jc req) of None \<Rightarrow> [] | Some err \<Rightarrow> [LogError err])
           @ [Respond (Redirect 302 (collapse_slashes (joined_path mountUrl req s)))])" by simp
  ultimately show "\<exists>before after. snd (skip jc save mountUrl req) = before @ [SessionSave] @ after
            \<and> \<not> list_ex is_response before \<and> list_ex is_response after"
    by blast
qed

theorem skip_persists_after_marking_witness:
  "skip_accepts (example_request (Some (QStr ''step-four'')))
   \<and> \<not> skip_accepts (example_request (Some (QStr ''step four'')))
   \<and> filter is_save (snd (skip spec_JourneyContext (\<lambda>_. None) ''/''
        (example_request (Some (QStr ''step-four''))))) = [SessionSave]
   \<and> filter is_save (snd (skip spec_JourneyContext (\<lambda>_. None) ''/''
        (example_request (Some (QStr ''step four''))))) = []
   \<and> sess_journeyData (session (fst (skip spec_JourneyContext (\<lambda>_. None) ''/''
        (example_request (Some (QStr ''step-four''))))))
       = Some ([''step-two'' \<mapsto> skip_marker])"
proof -
  have a: "skip_accepts (example_request (Some (QStr ''step-four'')))"
    by (simp add: skip_accepts_def pattern_defs)
  have b: "\<not> skip_accepts (example_request (Some (QStr ''step four'')))"
    by (simp add: skip_accepts_def pattern_defs)
  let ?r = "skip spec_JourneyContext (\<lambda>_. None) ''/'' (example_request (Some (QStr ''step-four'')))"
  note t = skip_persists_after_marking [of "example_request (Some (QStr ''step-four''))"
      spec_JourneyContext "\<lambda>_. None" "''/''"]
  note u = skip_persists_after_marking [of "example_request (Some (QStr ''step four''))"
      spec_JourneyContext "\<lambda>_. None" "''/''"]
  from t a have j: "journeyData (fst ?r)
      = mark_skipped spec_JourneyContext
          (journeyWaypointId (example_request (Some (QStr ''step-four''))))
          (journeyData (example_request (Some (QStr ''step-four''))))"
    by blast
  from t a have p: "session (fst ?r)
      = persist_to_session spec_JourneyContext (journeyData (fst ?r))
          (session (example_request (Some (QStr ''step-four''))))"
    by blast
  from t a have f: "filter is_save (snd ?r) = [SessionSave]" by blast
  from u b have g: "filter is_save (snd (skip spec_JourneyContext (\<lambda>_. None) ''/''
        (example_request (Some (QStr ''step four''))))) = []" by blast
  have d: "sess_journeyData (session (fst ?r)) = Some ([''step-two'' \<mapsto> skip_marker])"
    by (subst p, subst j) (simp add: persist_to_session_spec mark_skipped_spec)
  from a b f g d show ?thesis by simp
qed

text \<open>
  C7 as the specification states it fails: on the request of the scenario the skip operation
  changes the session and triggers the save itself.
\<close>

theorem skip_persists_counterexample:
  "list_ex is_save (snd (skip spec_JourneyContext (\<lambda>_. None) ''/''
        (example_request (Some (QStr ''step-four'')))))
   \<and> sess_journeyData (session (example_request (Some (QStr ''step-four'')))) = None
   \<and> sess_journeyData (session (fst (skip spec_JourneyContext (\<lambda>_. None) ''/''
        (example_request (Some (QStr ''step-four''))))))
       = Some ([''step-two'' \<mapsto> skip_marker])"
proof -
  have q: "query_skipto (example_request (Some (QStr ''step-four''))) = Some (QStr ''step-four'')"
    by simp
  have m: "skipto_match ''step-four''" by (simp add: pattern_defs)
  show ?thesis
    by (simp add: skip_accepted' [OF q m] session_to_save_spec mark_skipped_spec)
qed

text \<open>
  C8. When the \<open>skipto\<close> query parameter is absent, the middleware only calls the next
  handler: no response, no log line, no session save, and the request (journey data,
  validation errors, session) is returned as it came in.
\<close>

theorem skip_absent_passthrough:
  "skip jc save mountUrl (req\<lparr>query_skipto := None\<rparr>)
     = (req\<lparr>query_skipto := None\<rparr>, [NextCalled])"
  by (simp add: skip_def)

text \<open>
  C9. On an accepted \<open>skipto\<close>, when the session store answers the save with an error, the
  error is logged and nothing else differs from a run whose save succeeds: the same 302
  redirect is sent and the request is left in the same state, the marker in place.
\<close>

theorem skip_save_failure_only_logged:
  assumes "query_skipto req = Some (QStr s)" and "skipto_match s"
    and "save (session_to_save jc req) = Some err"
  shows "snd (skip jc save mountUrl req)
           = [LogInfo ''Marking waypoint %s as skipped'' [Some (journeyWaypointId req)],
              SessionSave, LogError err,
              Respond (Redirect 302 (collapse_slashes (joined_path mountUrl req s)))]
       \<and> snd (skip jc (\<lambda>_. None) mountUrl req)
           = [LogInfo ''Marking waypoint %s as skipped'' [Some (journeyWaypointId req)],
              SessionSave,
              Respond (Redirect 302 (collapse_slashes (joined_path mountUrl req s)))]
       \<and> fst (skip jc save mountUrl req) = fst (skip jc (\<lambda>_. None) mountUrl req)
       \<and> journeyData (fst (skip jc save mountUrl req))
           = mark_skipped jc (journeyWaypointId req) (journeyData req)"
  using assms(3) by (simp add: skip_accepted' [OF assms(1,2)])

theorem skip_save_failure_only_logged_witness:
  "query_skipto (example_request (Some (QStr ''step-four''))) = Some (QStr ''step-four'')
   \<and> skipto_match ''step-four''
   \<and> snd (skip spec_JourneyContext (\<lambda>_. Some (StoreError ''store down'')) ''/''
        (example_request (Some (QStr ''step-four''))))
       = [LogInfo ''Marking waypoint %s as skipped'' [Some ''step-two''],
          SessionSave, LogError (StoreError ''store down''),
          Respond (Redirect 302 ''/main/step-four'')]
   \<and> isSkipped ''step-two'' (journeyData (fst (skip spec_JourneyContext
        (\<lambda>_. Some (StoreError ''store down'')) ''/'' (example_request (Some (QStr ''step-four''))))))"
proof -
  have q: "query_skipto (example_request (Some (QStr ''step-four''))) = Some (QStr ''step-four'')"
    by simp
  have m: "skipto_match ''step-four''" by (simp add: pattern_defs)
  have f: "(\<lambda>_ :: ((string \<rightharpoonup> nat jsval), (string \<rightharpoonup> string list)) session.
               Some (StoreError ''store down''))
             (session_to_save spec_JourneyContext (example_request (Some (QStr ''step-four''))))
           = Some (StoreError ''store down'')" by simp
  note t = skip_save_failure_only_logged
      [where jc = spec_JourneyContext and mountUrl = "''/''", OF q m f]
  from t [THEN conjunct1] have e: "snd (skip spec_JourneyContext (\<lambda>_. Some (StoreError ''store down'')) ''/''
        (example_request (Some (QStr ''step-four''))))
       = [LogInfo ''Marking waypoint %s as skipped'' [Some ''step-two''],
          SessionSave, LogError (StoreError ''store down''),
          Respond (Redirect 302 ''/main/step-four'')]"
    by (simp add: joined_path_def)
  from t [THEN conjunct2, THEN conjunct2, THEN conjunct2]
  have k: "journeyData (fst (skip spec_JourneyContext
        (\<lambda>_. Some (StoreError ''store down'')) ''/'' (example_request (Some (QStr ''step-four'')))))
       = mark_skipped spec_JourneyContext ''step-two''
           (journeyData (example_request (Some (QStr ''step-four''))))"
    by simp
  have i: "isSkipped ''step-two'' (journeyData (fst (skip spec_JourneyContext
        (\<lambda>_. Some (StoreError ''store down'')) ''/'' (example_request (Some (QStr ''step-four''))))))"
    by (subst k) (simp add: mark_skipped_spec isSkipped_def)
  from q m e i show ?thesis by simp
qed

section \<open>Claims about config ingestion\<close>

text \<open>
  C10. For configurations that ingestion accepts, the one line logged is the format
  \<open>Parsed config: %s\<close> with the serialised validated configuration; two configurations
  whose validated forms differ only in what stands under \<open>store\<close> or \<open>secret\<close> keys log
  the same line; and a member under such a key is serialised as the key and the literal
  \<open>[NOT PARSED]\<close>, whatever its value.
\<close>

theorem ingestConfig_log_hides_secrets:
  assumes "ingest c = Inr v" and "ingest c' = Inr v'" and "differ_only_in_secrets v v'"
  shows "logged (ingestConfig ingest ns c) = [LogInfo ''Parsed config: %s'' [stringify_config ns v]]
       \<and> logged (ingestConfig ingest ns c') = logged (ingestConfig ingest ns c)
       \<and> (k = ''store'' \<or> k = ''secret'' \<longrightarrow>
            serialize_members ns ((k, x) # kvs)
              = (json_quote k @ '':'' @ json_quote ''[NOT PARSED]'') # serialize_members ns kvs)"
  using assms stringify_differ_only_in_secrets [of v v' ns]
  by (auto simp: logged_def ingestConfig_def replacer_secret)

theorem ingestConfig_log_hides_secrets_witness:
  \<open>differ_only_in_secrets (example_config (JStr ''hunter2'') (JObj [(''host'', JStr ''redis'')]))
      (example_config (JStr ''swordfish'') JFun)
   \<and> logged (ingestConfig Inr show_index (example_config (JStr ''hunter2'') (JObj [(''host'', JStr ''redis'')])))
       = [LogInfo ''Parsed config: %s'' [Some
           ''{"mountUrl":"/","i18n":{"locales":["en","cy"]},"sessions":{"name":"sid","secret":"[NOT PARSED]","ttl":3600,"store":"[NOT PARSED]"}}'']]
   \<and> logged (ingestConfig Inr show_index (example_config (JStr ''swordfish'') JFun))
       = [LogInfo ''Parsed config: %s'' [Some
           ''{"mountUrl":"/","i18n":{"locales":["en","cy"]},"sessions":{"name":"sid","secret":"[NOT PARSED]","ttl":3600,"store":"[NOT PARSED]"}}'']]\<close>
proof -
  let ?a = "example_config (JStr ''hunter2'') (JObj [(''host'', JStr ''redis'')])"
  let ?b = "example_config (JStr ''swordfish'') JFun"
  have d: "differ_only_in_secrets ?a ?b" by (simp add: example_config_def)
  have a: "Inr ?a = (Inr ?a :: string + nat jsval)" and b: "Inr ?b = (Inr ?b :: string + nat jsval)"
    by simp_all
  note t = ingestConfig_log_hides_secrets [where ingest = Inr and ns = show_index, OF a b d]
  have s: \<open>stringify_config show_index ?a = Some
      ''{"mountUrl":"/","i18n":{"locales":["en","cy"]},"sessions":{"name":"sid","secret":"[NOT PARSED]","ttl":3600,"store":"[NOT PARSED]"}}''\<close>
    by (simp add: stringify_config_def example_config_def config_replacer_def indexOf_def
        json_quote_def json_escape_def show_index.simps)
  from t [THEN conjunct1] t [THEN conjunct2, THEN conjunct1] d s show ?thesis by simp
qed

end
